theory Spec2Isabelle
  imports Complex_Main
begin

section \<open>JavaScript values read by the bridge\<close>

text \<open>
  A value returned by \<^verbatim>\<open>JSON.parse\<close>. An object is the list of its own properties
  (\<^verbatim>\<open>JSON.parse\<close> keeps one entry per key). \<^verbatim>\<open>undefined\<close> is not a JSON value:
  a JavaScript value that may be \<^verbatim>\<open>undefined\<close> is a \<open>json option\<close>, with \<open>None\<close>
  for \<^verbatim>\<open>undefined\<close>.
\<close>

datatype json =
    JNull
  | JBool bool
  | JNum rat
  | JStr string
  | JArr "json list"
  | JObj "(string \<times> json) list"

datatype exn = SyntaxError | TypeError

text \<open>
  \<^verbatim>\<open>data.k\<close> for a value that is not \<^verbatim>\<open>null\<close> and a key \<open>k\<close> among the ones the
  handlers read (\<^verbatim>\<open>type\<close>, \<^verbatim>\<open>session_id\<close>, \<^verbatim>\<open>duration\<close>, \<^verbatim>\<open>reason\<close>,
  \<^verbatim>\<open>timestamp\<close>): an object gives its property or \<^verbatim>\<open>undefined\<close>, every other value
  (number, string, boolean, array) gives \<^verbatim>\<open>undefined\<close>. On \<^verbatim>\<open>null\<close> the read throws a
  TypeError; the handlers below test for it before they call \<open>get\<close>.
\<close>

fun get :: "json \<Rightarrow> string \<Rightarrow> json option" where
  "get (JObj kvs) k = map_of kvs k"
| "get _ k = None"

text \<open>JavaScript truthiness, as \<^verbatim>\<open>&&\<close>, \<^verbatim>\<open>||\<close> and \<^verbatim>\<open>if\<close> use it.\<close>

fun truthy :: "json option \<Rightarrow> bool" where
  "truthy None = False"
| "truthy (Some JNull) = False"
| "truthy (Some (JBool b)) = b"
| "truthy (Some (JNum n)) = (n \<noteq> 0)"
| "truthy (Some (JStr s)) = (s \<noteq> [])"
| "truthy (Some (JArr xs)) = True"
| "truthy (Some (JObj kvs)) = True"

text \<open>\<^verbatim>\<open>v || d\<close> where \<open>d\<close> is a defined value.\<close>

fun or_default :: "json option \<Rightarrow> json \<Rightarrow> json" where
  "or_default None d = d"
| "or_default (Some v) d = (if truthy (Some v) then v else d)"

text \<open>
  \<^verbatim>\<open>v?.toFixed(2)\<close>: \<^verbatim>\<open>undefined\<close> and \<^verbatim>\<open>null\<close> short-circuit, a number has the
  method, and on any other value \<^verbatim>\<open>toFixed\<close> is not a function, so the call throws a
  TypeError.
\<close>

fun toFixed_throws :: "json option \<Rightarrow> bool" where
  "toFixed_throws None = False"
| "toFixed_throws (Some JNull) = False"
| "toFixed_throws (Some (JNum n)) = False"
| "toFixed_throws (Some v) = True"

text \<open>
  Converting a value to a primitive, as \<^verbatim>\<open>v * 1000\<close> and \<^verbatim>\<open>v + ')'\<close> do. An object
  decoded from JSON has no callable property of its own, so an own property
  \<^verbatim>\<open>toString\<close> hides the inherited method and the conversion throws a TypeError; an
  array converts its elements; every other value converts.
\<close>

fun coerce_throws :: "json \<Rightarrow> bool" where
  "coerce_throws (JObj kvs) = (map_of kvs ''toString'' \<noteq> None)"
| "coerce_throws (JArr xs) = list_ex coerce_throws xs"
| "coerce_throws v = False"

fun coerce_throws_opt :: "json option \<Rightarrow> bool" where
  "coerce_throws_opt None = False"
| "coerce_throws_opt (Some v) = coerce_throws v"

text \<open>Truthiness of a string-valued field that may be absent.\<close>

fun truthy_str :: "string option \<Rightarrow> bool" where
  "truthy_str None = False"
| "truthy_str (Some s) = (s \<noteq> [])"

section \<open>State of AutoBridge (src/auto-bridge.js)\<close>

datatype level = Info | Warn | Error

datatype readyState = CONNECTING | OPEN | CLOSING | CLOSED

text \<open>
  A push client in \<^verbatim>\<open>wss.clients\<close>. Whether \<^verbatim>\<open>client.send\<close> throws is decided by the
  socket, outside the bridge: it is the field \<open>send_throws\<close>.
\<close>

record ws_client =
  cid :: nat
  readyState :: readyState
  send_throws :: bool

text \<open>
  What the bridge does to the outside, in order. \<open>Stringify d\<close> is one call
  \<^verbatim>\<open>JSON.stringify(d)\<close>; \<open>WsSend c d\<close> is a call \<^verbatim>\<open>client.send(message)\<close> on client
  \<open>c\<close> that returned, where \<open>message\<close> is the text of \<open>d\<close>; \<open>WsSendThrew c d\<close> is such a
  call that threw. \<open>MqttConnect\<close> is one call of \<^verbatim>\<open>mqtt.connect\<close>, which opens a broker
  connection; \<open>MqttSubscribe t\<close> is one call \<^verbatim>\<open>mqttClient.subscribe(t, ...)\<close>.
\<close>

datatype effect =
    Stringify json
  | WsSend nat json
  | WsSendThrew nat json
  | MqttConnect string
  | MqttSubscribe string
  | SetTimeout nat
  | Resolve
  | Reject

text \<open>
  The device configuration \<^verbatim>\<open>fetchDeviceConfig\<close> resolves with: the \<^verbatim>\<open>mqtt\<close> object of
  the OTA response with \<^verbatim>\<open>deviceId\<close> and \<^verbatim>\<open>clientId\<close> added. A field that is absent is
  \<open>None\<close>.
\<close>

record config =
  endpoint :: "string option"
  client_id :: "string option"
  username :: "string option"
  password :: "string option"
  publish_topic :: "string option"
  deviceId :: "string option"
  clientId :: "string option"

text \<open>
  The object \<^verbatim>\<open>mqtt.connect\<close> returns, with the variables its handlers close over:
  \<open>connected\<close> is the library's flag \<^verbatim>\<open>mqttClient.connected\<close>, \<open>cfg\<close> is
  \<^verbatim>\<open>config\<close>, and \<open>sub_publishTopic\<close>, \<open>sub_deviceId\<close>, \<open>isFirstConnect\<close> are the
  fields of \<^verbatim>\<open>subscribeConfig\<close>.
\<close>

record mqtt_client =
  connected :: bool
  cfg :: config
  sub_publishTopic :: "string option"
  sub_deviceId :: "string option"
  isFirstConnect :: bool

record stats =
  mqttMessages :: nat
  websocketClients :: int
  conversationStats :: nat

text \<open>
  The fields of the AutoBridge object that the handlers use. \<open>wss\<close> is \<open>None\<close> until
  \<^verbatim>\<open>startWebSocketServer\<close> has run, then the clients of the server in insertion order.
  \<open>publishTopic\<close> is \<open>None\<close> while it is \<^verbatim>\<open>null\<close> or \<^verbatim>\<open>undefined\<close>. \<open>console\<close> holds
  one entry per console call that marks a branch (level and the fixed ASCII part of the
  text); \<open>effects\<close> holds the calls to the sockets, the broker client and the timers.
\<close>

record bridge =
  mqttClient :: "mqtt_client option"
  wss :: "ws_client list option"
  deviceConfigs :: "(string \<times> config) list"
  publishTopic :: "string option"
  stats :: stats
  console :: "(level \<times> string) list"
  effects :: "effect list"

definition log :: "level \<Rightarrow> string \<Rightarrow> bridge \<Rightarrow> bridge" where
  "log l s st = st\<lparr>console := console st @ [(l, s)]\<rparr>"

definition emit :: "effect \<Rightarrow> bridge \<Rightarrow> bridge" where
  "emit e st = st\<lparr>effects := effects st @ [e]\<rparr>"

text \<open>\<^verbatim>\<open>this.mqttClient && this.mqttClient.connected\<close>\<close>

definition mqtt_connected :: "bridge \<Rightarrow> bool" where
  "mqtt_connected st = (case mqttClient st of None \<Rightarrow> False | Some c \<Rightarrow> connected c)"

section \<open>broadcastToWebSocket (auto-bridge.js, lines 418-447)\<close>

text \<open>
  The body of \<^verbatim>\<open>this.wss.clients.forEach\<close>: the state and \<^verbatim>\<open>sentCount\<close> are threaded
  through the clients in order. A throwing \<^verbatim>\<open>send\<close> is caught and logged; the loop goes
  on. Nothing here changes \<^verbatim>\<open>wss.clients\<close>.
\<close>

fun forEach_send :: "json \<Rightarrow> ws_client list \<Rightarrow> bridge \<times> nat \<Rightarrow> bridge \<times> nat" where
  "forEach_send msg [] acc = acc"
| "forEach_send msg (c # cs) (st, sentCount) =
     forEach_send msg cs
       (if readyState c = OPEN then
          (if send_throws c
           then (log Error ''Failed to send to client'' (emit (WsSendThrew (cid c) msg) st), sentCount)
           else (log Info ''Sent to client'' (emit (WsSend (cid c) msg) st), sentCount + 1))
        else (log Info ''Client not ready'' st, sentCount))"

definition broadcastToWebSocket :: "json \<Rightarrow> bridge \<Rightarrow> bridge" where
  "broadcastToWebSocket data st =
     (case wss st of
        None \<Rightarrow> log Warn ''WebSocket server not initialized'' st
      | Some clients \<Rightarrow>
          (let st1 = log Info ''Broadcasting message'' (emit (Stringify data) st);
               (st2, sentCount) = forEach_send data clients (st1, 0)
           in if sentCount > 0
              then log Info ''Broadcasted to WebSocket client(s)'' st2
              else log Warn ''No clients connected to receive message'' st2))"

section \<open>The 'message' handler of connectMQTT (auto-bridge.js, lines 268-336)\<close>

definition marker :: json where
  "marker = JStr ''conversation_stats''"

text \<open>
  The message the tolerant branch builds (lines 318-324) from \<^verbatim>\<open>data.session_id\<close>
  and \<^verbatim>\<open>data.duration\<close>, both defined there; \<open>now\<close> is
  \<^verbatim>\<open>Math.floor(Date.now() / 1000)\<close>.
\<close>

definition statsMessage :: "int \<Rightarrow> json \<Rightarrow> json \<Rightarrow> json \<Rightarrow> json" where
  "statsMessage now session_id duration data =
     JObj [(''type'', marker),
           (''session_id'', session_id),
           (''duration'', duration),
           (''reason'', or_default (get data ''reason'') (JStr ''unknown'')),
           (''timestamp'', or_default (get data ''timestamp'') (JNum (of_int now)))]"

text \<open>
  The \<^verbatim>\<open>try\<close> block after \<^verbatim>\<open>JSON.parse\<close> has returned \<open>data\<close> (lines 291-331). The
  result is the exception thrown, if any, and the state reached. Line 291 reads
  \<^verbatim>\<open>data.type\<close>, which throws on \<^verbatim>\<open>null\<close>; line 303 calls
  \<^verbatim>\<open>data.duration?.toFixed(2)\<close>, which throws when the duration is neither a number nor
  nullish, after the counter was incremented and before the broadcast; line 305 computes
  \<^verbatim>\<open>data.timestamp * 1000\<close> and line 329 \<^verbatim>\<open>data.type + ')'\<close>, which throw when the
  value does not convert to a primitive. The tolerant branch
  (line 315) tests \<^verbatim>\<open>data.duration !== undefined && data.session_id\<close>: the duration
  is present and the session id is truthy.
\<close>

definition try_block :: "int \<Rightarrow> bool \<Rightarrow> json \<Rightarrow> bridge \<Rightarrow> exn option \<times> bridge" where
  "try_block now isDevicePublish data st =
     (if data = JNull then (Some TypeError, st)
      else if get data ''type'' = Some marker then
        (let st1 = st\<lparr>stats := (stats st)\<lparr>conversationStats := conversationStats (stats st) + 1\<rparr>\<rparr>;
             st2 = log Info ''CONVERSATION STATS DETECTED'' st1
         in if toFixed_throws (get data ''duration'') then (Some TypeError, st2)
            else if coerce_throws_opt (get data ''timestamp'') then (Some TypeError, st2)
            else (None, broadcastToWebSocket data st2))
      else if isDevicePublish then
        (let st1 = log Info ''Device published message but type is'' st
         in case (get data ''duration'', get data ''session_id'') of
              (Some duration, Some session_id) \<Rightarrow>
                if truthy (Some session_id) then
                  (None, broadcastToWebSocket (statsMessage now session_id duration data)
                           (log Info ''Message looks like conversation stats, forwarding anyway'' st1))
                else (None, st1)
            | _ \<Rightarrow> (None, st1))
      else if coerce_throws_opt (get data ''type'') then (Some TypeError, st)
      else (None, log Info ''(Server message)'' st))"

text \<open>
  The handler. \<open>JSON_parse\<close> is \<^verbatim>\<open>JSON.parse\<close> on the text of the payload, \<open>None\<close> when
  it throws a SyntaxError. Every exception of the \<^verbatim>\<open>try\<close> block reaches the \<^verbatim>\<open>catch\<close>,
  which logs it; the handler itself returns normally on every input.
\<close>

definition on_message :: "(string \<Rightarrow> json option) \<Rightarrow> int \<Rightarrow> string \<Rightarrow> string \<Rightarrow> bridge \<Rightarrow> bridge" where
  "on_message JSON_parse now topic message st =
     (let st1 = st\<lparr>stats := (stats st)\<lparr>mqttMessages := mqttMessages (stats st) + 1\<rparr>\<rparr>;
          isDevicePublish = (publishTopic st1 = Some topic);
          st2 = log Info ''MQTT message received'' st1;
          (thrown, st3) =
            (case JSON_parse message of
               None \<Rightarrow> (Some SyntaxError, st2)
             | Some data \<Rightarrow> try_block now isDevicePublish data st2)
      in case thrown of
           None \<Rightarrow> st3
         | Some e \<Rightarrow> log Error ''Error parsing MQTT message'' st3)"

section \<open>connectMQTT and its subscription (auto-bridge.js, lines 112-266)\<close>

text \<open>
  The template string \<^verbatim>\<open>mqtts://${config.endpoint}:8883\<close>; an absent endpoint prints as
  \<^verbatim>\<open>undefined\<close>.
\<close>

definition mqttUrl :: "config \<Rightarrow> string" where
  "mqttUrl config =
     ''mqtts://'' @ (case endpoint config of None \<Rightarrow> ''undefined'' | Some e \<Rightarrow> e) @ '':8883''"

text \<open>
  The client \<^verbatim>\<open>mqtt.connect\<close> returns (its \<^verbatim>\<open>connected\<close> flag is false until the broker
  acknowledges) together with \<^verbatim>\<open>subscribeConfig\<close> as line 157 builds it.
\<close>

definition new_client :: "config \<Rightarrow> mqtt_client" where
  "new_client config =
     \<lparr>connected = False, cfg = config, sub_publishTopic = publish_topic config,
      sub_deviceId = deviceId config, isFirstConnect = True\<rparr>"

text \<open>
  The synchronous part of \<^verbatim>\<open>connectMQTT\<close> (the executor of its promise). When the
  client is connected it resolves and returns at line 117, before line 121 saves the
  publish topic. Otherwise it saves \<^verbatim>\<open>config.publish_topic\<close>, opens a broker connection
  and replaces \<^verbatim>\<open>this.mqttClient\<close>; the promise settles later, from the handlers.
\<close>

definition connectMQTT :: "config \<Rightarrow> bridge \<Rightarrow> bridge" where
  "connectMQTT config st =
     (if mqtt_connected st then emit Resolve (log Info ''MQTT already connected'' st)
      else
        (let st1 = log Info ''Saved publish_topic'' (st\<lparr>publishTopic := publish_topic config\<rparr>);
             st2 = emit (MqttConnect (mqttUrl config)) (log Info ''Connecting to MQTT'' st1)
         in st2\<lparr>mqttClient := Some (new_client config)\<rparr>))"

text \<open>\<^verbatim>\<open>`devices/p2p/${deviceId.replace(/:/g, '_')}`\<close> (line 173)\<close>

definition deviceTopic :: "string \<Rightarrow> string" where
  "deviceTopic d = ''devices/p2p/'' @ map (\<lambda>ch. if ch = CHR '':'' then CHR ''_'' else ch) d"

text \<open>
  The array \<^verbatim>\<open>subscribeTopics\<close> that \<^verbatim>\<open>doSubscribe\<close> builds (lines 165-184): the publish
  topic when truthy, then the device topic when the device id is truthy, and only when
  both are missing one fallback pattern, chosen by \<^verbatim>\<open>config.client_id\<close>.
\<close>

definition subscribeTopics :: "mqtt_client \<Rightarrow> string list" where
  "subscribeTopics c =
     (let t1 = (case sub_publishTopic c of
                  None \<Rightarrow> []
                | Some t \<Rightarrow> if t \<noteq> [] then [t] else []);
          t2 = (case sub_deviceId c of
                  None \<Rightarrow> []
                | Some d \<Rightarrow> if d \<noteq> [] then [deviceTopic d] else [])
      in if length (t1 @ t2) = 0 then
           (case client_id (cfg c) of
              None \<Rightarrow> [''xiaozhi/+/publish'']
            | Some i \<Rightarrow> if i \<noteq> [] then [''xiaozhi/'' @ i @ ''/#''] else [''xiaozhi/+/publish''])
         else t1 @ t2)"

text \<open>
  Every topic \<^verbatim>\<open>doSubscribe\<close> subscribes to, in the order of the calls (lines 187-217):
  the array above, then the wildcard \<^verbatim>\<open>#\<close>, which is requested on every call.
\<close>

definition requestedTopics :: "mqtt_client \<Rightarrow> string list" where
  "requestedTopics c = subscribeTopics c @ [''#'']"

text \<open>
  \<^verbatim>\<open>doSubscribe\<close>: all subscribe calls are made at once; \<open>fails t\<close> says that the broker
  answers the subscription to \<open>t\<close> with an error. The result says whether
  \<^verbatim>\<open>Promise.all\<close> rejects: a failed topic of the array rejects, a failed wildcard only
  warns.
\<close>

definition doSubscribe :: "(string \<Rightarrow> bool) \<Rightarrow> mqtt_client \<Rightarrow> bridge \<Rightarrow> bool \<times> bridge" where
  "doSubscribe fails c st =
     (let st1 = foldl (\<lambda>s t. emit (MqttSubscribe t) s) st (requestedTopics c);
          st2 = foldl (\<lambda>s t. if fails t then log Error ''Failed to subscribe'' s
                              else log Info ''Subscribed to'' s) st1 (requestedTopics c)
      in (list_ex fails (subscribeTopics c), st2))"

text \<open>
  The 'connect' handler (lines 222-266) up to the timer: \<open>connack\<close> is the return code of
  the acknowledgment, \<open>None\<close> when the library passes no packet. Nothing is subscribed
  here; a timer of 1000 ms is started.
\<close>

definition on_connect :: "nat option \<Rightarrow> bridge \<Rightarrow> bridge" where
  "on_connect connack st =
     (case mqttClient st of
        None \<Rightarrow> st
      | Some c \<Rightarrow>
          (let st1 = log Info (if \<not> isFirstConnect c then ''MQTT reconnected'' else ''MQTT connected'') st
           in if (case connack of None \<Rightarrow> False | Some returnCode \<Rightarrow> returnCode \<noteq> 0)
              then log Error ''Connection refused with return code'' st1
              else if \<not> connected c
              then log Warn ''Client not connected after connect event'' st1
              else emit (SetTimeout 1000) st1))"

text \<open>
  The callback of that timer (lines 240-265). It reads \<^verbatim>\<open>this.mqttClient\<close> again and
  returns without subscribing when the client is missing or not connected.
\<close>

definition on_timer :: "(string \<Rightarrow> bool) \<Rightarrow> bridge \<Rightarrow> bridge" where
  "on_timer fails st =
     (case mqttClient st of
        None \<Rightarrow> log Warn ''Connection lost before subscription'' st
      | Some c \<Rightarrow>
          if \<not> connected c then log Warn ''Connection lost before subscription'' st
          else
            (let (rejected, st1) = doSubscribe fails c (log Info ''Starting subscription...'' st);
                 st2 = (if rejected then log Warn ''Some subscriptions may have failed, but continuing...''
                                           (log Error ''Subscription error'' st1)
                        else if isFirstConnect c then log Info ''Listening for messages on all subscribed topics...'' st1
                        else log Info ''Resubscribed to all topics'' st1)
             in if isFirstConnect c
                then emit Resolve (st2\<lparr>mqttClient := Some (c\<lparr>isFirstConnect := False\<rparr>)\<rparr>)
                else st2))"

text \<open>
  Modelled from the spec: \<^verbatim>\<open>disconnect()\<close>, which src/auto-bridge.js does not define.
  Section 4.1 of the specification: "Connected | Reconnecting --disconnect()--> Closed
  (terminal; releases all resources ...)". The broker client is closed, so its
  \<^verbatim>\<open>connected\<close> flag is false from then on. The source drops the handle that
  \<^verbatim>\<open>setTimeout\<close> returns, so a timer that is pending cannot be cleared and still fires.
\<close>

definition disconnect :: "bridge \<Rightarrow> bridge" where
  "disconnect st = st\<lparr>mqttClient := map_option (\<lambda>c. c\<lparr>connected := False\<rparr>) (mqttClient st)\<rparr>"

section \<open>addDevice (auto-bridge.js, lines 452-487)\<close>

text \<open>\<^verbatim>\<open>Map.prototype.set\<close>: an existing key keeps its place, a new key goes last.\<close>

fun map_set :: "'k \<Rightarrow> 'v \<Rightarrow> ('k \<times> 'v) list \<Rightarrow> ('k \<times> 'v) list" where
  "map_set k v [] = [(k, v)]"
| "map_set k v ((k', v') # kvs) = (if k = k' then (k, v) # kvs else (k', v') # map_set k v kvs)"

text \<open>
  The object under \<^verbatim>\<open>config\<close> in the value \<^verbatim>\<open>addDevice\<close> returns on success
  (lines 473-478): four fields of the stored configuration, and no other.
\<close>

record config_summary =
  sum_endpoint :: "string option"
  sum_client_id :: "string option"
  sum_username :: "string option"
  sum_publish_topic :: "string option"

definition summary :: "config \<Rightarrow> config_summary" where
  "summary config =
     \<lparr>sum_endpoint = endpoint config, sum_client_id = client_id config,
      sum_username = username config, sum_publish_topic = publish_topic config\<rparr>"

datatype add_result = AddSuccess string config_summary | AddFailure string

text \<open>
  \<^verbatim>\<open>addDevice\<close> up to its first \<^verbatim>\<open>await\<close> (lines 453-455): it logs and starts the OTA
  request. Other handlers run before the request settles.
\<close>

definition addDevice_start :: "string \<Rightarrow> bridge \<Rightarrow> bridge" where
  "addDevice_start dId st = log Info ''Fetching config for device'' st"

text \<open>
  \<^verbatim>\<open>addDevice\<close> from the moment the OTA request has settled (lines 455-486); \<open>st\<close> is the
  state of the bridge at that moment, which is the state the test of line 466 reads.
  \<open>fetched\<close> is the outcome of the request: \<open>Inl\<close> the message of the error, \<open>Inr\<close> the
  \<^verbatim>\<open>mqtt\<close> object of the response, to which \<^verbatim>\<open>fetchDeviceConfig\<close> adds the two
  identifiers (lines 81-85). \<^verbatim>\<open>connectMQTT\<close> is called only when the client is missing or
  not connected; \<open>rejected\<close> is how its promise settles when it is awaited: \<open>None\<close>
  resolved, \<open>Some\<close> the message of the error. The state returned is the one reached by the
  synchronous steps.
\<close>

definition addDevice_resume ::
  "string \<Rightarrow> string \<Rightarrow> string + config \<Rightarrow> string option \<Rightarrow> bridge \<Rightarrow> add_result \<times> bridge" where
  "addDevice_resume dId cId fetched rejected st =
     (case fetched of
        Inl msg \<Rightarrow> (AddFailure msg, log Error ''Failed to add device'' st)
      | Inr mqtt \<Rightarrow>
          (let config = mqtt\<lparr>deviceId := Some dId, clientId := Some cId\<rparr>;
               st1 = log Info ''Device config fetched''
                       (st\<lparr>deviceConfigs := map_set dId config (deviceConfigs st)\<rparr>)
           in if \<not> mqtt_connected st1 then
                (let st2 = connectMQTT config st1
                 in case rejected of
                      None \<Rightarrow> (AddSuccess dId (summary config), st2)
                    | Some msg \<Rightarrow> (AddFailure msg, log Error ''Failed to add device'' st2))
              else (AddSuccess dId (summary config), st1)))"

text \<open>
  The whole call: \<open>during\<close> is what the handlers that run while the OTA request is pending
  do to the bridge.
\<close>

definition addDevice ::
  "string \<Rightarrow> string \<Rightarrow> string + config \<Rightarrow> string option \<Rightarrow> (bridge \<Rightarrow> bridge) \<Rightarrow> bridge
     \<Rightarrow> add_result \<times> bridge" where
  "addDevice dId cId fetched rejected during st =
     addDevice_resume dId cId fetched rejected (during (addDevice_start dId st))"

section \<open>The heartbeat of ApiBridge (src/api-bridge.js, lines 886-1058)\<close>

text \<open>
  One entry of \<^verbatim>\<open>wss.clients\<close> with the variables its 'connection' closure holds:
  \<open>isAlive\<close> is the local flag (initially true), \<open>ws_isAlive\<close> the property
  \<^verbatim>\<open>ws.isAlive\<close> (\<open>None\<close> while undefined) and \<open>pingInterval\<close> says that the interval
  timer is still armed. \<open>closing\<close> says that \<^verbatim>\<open>ws.terminate()\<close> has been called on the
  socket and its 'close' event is still to come.
\<close>

record conn =
  conn_id :: nat
  isAlive :: bool
  ws_isAlive :: "bool option"
  pingInterval :: bool
  closing :: bool

datatype hb_effect = PingFrame nat | SendPing nat | SendPong nat | Terminate nat

record api_bridge =
  clients :: "conn list"
  api_websocketClients :: int
  hb_effects :: "hb_effect list"

definition find_conn :: "nat \<Rightarrow> api_bridge \<Rightarrow> conn option" where
  "find_conn c st = find (\<lambda>x. conn_id x = c) (clients st)"


definition update_conn :: "nat \<Rightarrow> (conn \<Rightarrow> conn) \<Rightarrow> api_bridge \<Rightarrow> api_bridge" where
  "update_conn c f st = st\<lparr>clients := map (\<lambda>x. if conn_id x = c then f x else x) (clients st)\<rparr>"

definition hb_emit :: "hb_effect \<Rightarrow> api_bridge \<Rightarrow> api_bridge" where
  "hb_emit e st = st\<lparr>hb_effects := hb_effects st @ [e]\<rparr>"

text \<open>
  The socket of client \<open>c\<close> closes: the server of the ws library takes it out of
  \<^verbatim>\<open>wss.clients\<close>, and the 'close' handler (lines 1020-1048) decrements the counter and
  clears the interval.
\<close>

definition on_close :: "nat \<Rightarrow> api_bridge \<Rightarrow> api_bridge" where
  "on_close c st =
     st\<lparr>clients := filter (\<lambda>x. conn_id x \<noteq> c) (clients st),
        api_websocketClients := api_websocketClients st - 1\<rparr>"

text \<open>
  \<^verbatim>\<open>clearInterval(pingInterval); ws.terminate()\<close>, as the interval callback runs them:
  the interval is cleared and the socket is destroyed. The client stays in
  \<^verbatim>\<open>wss.clients\<close> until the ws library emits the 'close' event of the socket, which is
  the event \<open>SocketClose\<close> below.
\<close>

definition terminate :: "nat \<Rightarrow> api_bridge \<Rightarrow> api_bridge" where
  "terminate c st =
     hb_emit (Terminate c) (update_conn c (\<lambda>x. x\<lparr>pingInterval := False, closing := True\<rparr>) st)"





text \<open>The events of one client, and the handler each one runs while the client is registered.\<close>

datatype hb_event =
    Tick bool
  | Pong
  | Message "json option" bool
  | SocketClose
  | SocketError








section \<open>Notions used to state the properties\<close>

text \<open>
  The sends a broadcast of \<open>msg\<close> attempts on the clients \<open>cs\<close>: one per client whose
  socket is open, in the order of the registry, each either returning or throwing.
\<close>

definition attempts :: "json \<Rightarrow> ws_client list \<Rightarrow> effect list" where
  "attempts msg cs =
     map (\<lambda>c. if send_throws c then WsSendThrew (cid c) msg else WsSend (cid c) msg)
         (filter (\<lambda>c. readyState c = OPEN) cs)"

text \<open>\<open>frame st st'\<close>: \<open>st'\<close> differs from \<open>st\<close> at most in the console and the effects.\<close>

definition frame :: "bridge \<Rightarrow> bridge \<Rightarrow> bool" where
  "frame st st' \<longleftrightarrow>
     mqttClient st' = mqttClient st \<and> wss st' = wss st \<and> deviceConfigs st' = deviceConfigs st \<and>
     publishTopic st' = publishTopic st \<and> stats st' = stats st"

text \<open>The first steps of the 'message' handler: the counter and the log line.\<close>

definition received :: "bridge \<Rightarrow> bridge" where
  "received st = log Info ''MQTT message received''
     (st\<lparr>stats := (stats st)\<lparr>mqttMessages := mqttMessages (stats st) + 1\<rparr>\<rparr>)"

text \<open>The message lacks the marker: \<^verbatim>\<open>data.type === 'conversation_stats'\<close> is false.\<close>

definition lacks_marker :: "json \<Rightarrow> bool" where
  "lacks_marker data = (get data ''type'' \<noteq> Some marker)"

text \<open>The object has a property of that name, whatever its value.\<close>

definition has_field :: "json \<Rightarrow> string \<Rightarrow> bool" where
  "has_field data k = (get data k \<noteq> None)"

text \<open>The identifiers of the clients in \<^verbatim>\<open>wss.clients\<close>.\<close>

definition registry :: "bridge \<Rightarrow> nat list" where
  "registry st = (case wss st of None \<Rightarrow> [] | Some cs \<Rightarrow> map cid cs)"

section \<open>Concrete inputs\<close>

definition cfgX :: config where
  "cfgX = \<lparr>endpoint = Some ''broker.example'', client_id = None, username = Some ''user'',
           password = Some ''secret'', publish_topic = Some ''x/y/publish'',
           deviceId = Some ''e4:b0'', clientId = Some ''uuid-1''\<rparr>"

definition mqttY :: config where
  "mqttY = \<lparr>endpoint = Some ''broker.example'', client_id = Some ''GID_2'', username = Some ''user'',
            password = Some ''secret'', publish_topic = Some ''p/q/publish'',
            deviceId = None, clientId = None\<rparr>"

definition clientsX :: "ws_client list" where
  "clientsX = [\<lparr>cid = 1, readyState = OPEN, send_throws = False\<rparr>,
               \<lparr>cid = 2, readyState = OPEN, send_throws = True\<rparr>,
               \<lparr>cid = 3, readyState = CLOSED, send_throws = False\<rparr>,
               \<lparr>cid = 4, readyState = OPEN, send_throws = False\<rparr>]"

text \<open>
  A bridge whose server has four clients and whose broker client, created for the device
  of \<open>cfgX\<close>, is connected and subscribed.
\<close>

definition bridgeX :: bridge where
  "bridgeX = \<lparr>mqttClient = Some ((new_client cfgX)\<lparr>connected := True, isFirstConnect := False\<rparr>),
              wss = Some clientsX,
              deviceConfigs = [(''e4:b0'', cfgX)],
              publishTopic = Some ''x/y/publish'',
              stats = \<lparr>mqttMessages = 0, websocketClients = 4, conversationStats = 0\<rparr>,
              console = [],
              effects = []\<rparr>"

definition payload_tolerant :: json where
  "payload_tolerant = JObj [(''type'', JStr ''other''), (''session_id'', JStr ''s2''), (''duration'', JNum 4)]"

definition payload_empty_session :: json where
  "payload_empty_session = JObj [(''type'', JStr ''other''), (''session_id'', JStr []), (''duration'', JNum 4)]"

definition payload_control :: json where
  "payload_control = JObj [(''type'', JStr ''hello''), (''session_id'', JStr ''s3'')]"

text \<open>\<^verbatim>\<open>JSON.parse\<close> on a payload whose text decodes to \<open>d\<close>, and on one that is not JSON.\<close>

definition parse_as :: "json \<Rightarrow> string \<Rightarrow> json option" where
  "parse_as d m = Some d"

definition parse_fails :: "string \<Rightarrow> json option" where
  "parse_fails m = None"

text \<open>No handler runs while the OTA request is pending.\<close>

definition no_events :: "bridge \<Rightarrow> bridge" where
  "no_events st = st"



section \<open>Frame and effect lemmas\<close>

lemma frame_log [simp]: "frame st (log l s st') = frame st st'"
  by (simp add: frame_def log_def)

lemma frame_emit [simp]: "frame st (emit e st') = frame st st'"
  by (simp add: frame_def emit_def)

lemma frame_refl [simp]: "frame st st"
  by (simp add: frame_def)

lemma effects_log [simp]: "effects (log l s st) = effects st"
  by (simp add: log_def)

lemma effects_emit [simp]: "effects (emit e st) = effects st @ [e]"
  by (simp add: emit_def)

lemma console_log [simp]: "console (log l s st) = console st @ [(l, s)]"
  by (simp add: log_def)

lemma stats_log [simp]: "stats (log l s st) = stats st"
  by (simp add: log_def)

lemma wss_log [simp]: "wss (log l s st) = wss st"
  by (simp add: log_def)

lemma forEach_send_effects:
  "effects (fst (forEach_send msg cs (st, n))) = effects st @ attempts msg cs"
  by (induction cs arbitrary: st n) (simp_all add: attempts_def)

lemma forEach_send_frame:
  "frame st0 (fst (forEach_send msg cs (st, n))) = frame st0 st"
  by (induction cs arbitrary: st n) simp_all

lemma broadcast_frame [simp]: "frame st0 (broadcastToWebSocket d st) = frame st0 st"
proof (cases "wss st")
  case None
  then show ?thesis by (simp add: broadcastToWebSocket_def)
next
  case (Some cs)
  obtain st2 n2 where run:
    "forEach_send d cs (log Info ''Broadcasting message'' (emit (Stringify d) st), 0) = (st2, n2)"
    by (cases "forEach_send d cs (log Info ''Broadcasting message'' (emit (Stringify d) st), 0)")
  from forEach_send_frame [of st0 d cs "log Info ''Broadcasting message'' (emit (Stringify d) st)" 0]
  have "frame st0 st2 = frame st0 st" by (simp add: run)
  with Some run show ?thesis by (simp add: broadcastToWebSocket_def)
qed

lemma broadcast_effects_Some:
  assumes "wss st = Some cs"
  shows "effects (broadcastToWebSocket d st) = effects st @ Stringify d # attempts d cs"
proof -
  obtain st2 n2 where run:
    "forEach_send d cs (log Info ''Broadcasting message'' (emit (Stringify d) st), 0) = (st2, n2)"
    by (cases "forEach_send d cs (log Info ''Broadcasting message'' (emit (Stringify d) st), 0)")
  from forEach_send_effects [of d cs "log Info ''Broadcasting message'' (emit (Stringify d) st)" 0]
  have "effects st2 = effects st @ Stringify d # attempts d cs" by (simp add: run)
  with assms run show ?thesis by (simp add: broadcastToWebSocket_def)
qed

lemma stats_broadcast [simp]: "stats (broadcastToWebSocket d st) = stats st"
  using broadcast_frame [of st d st] by (simp add: frame_def)

lemma wss_broadcast [simp]: "wss (broadcastToWebSocket d st) = wss st"
  using broadcast_frame [of st d st] by (simp add: frame_def)

lemma attempts_delivered:
  "c \<in> set cs \<Longrightarrow> readyState c = OPEN \<Longrightarrow> \<not> send_throws c \<Longrightarrow> WsSend (cid c) d \<in> set (attempts d cs)"
  by (force simp: attempts_def)

section \<open>The message handler\<close>

lemma on_message_alt:
  "on_message JSON_parse now topic message st =
     (case JSON_parse message of
        None \<Rightarrow> log Error ''Error parsing MQTT message'' (received st)
      | Some data \<Rightarrow>
          (case try_block now (publishTopic st = Some topic) data (received st) of
             (None, st3) \<Rightarrow> st3
           | (Some e, st3) \<Rightarrow> log Error ''Error parsing MQTT message'' st3))"
  by (simp add: on_message_def received_def Let_def log_def split: option.split prod.split)

lemma frame_received:
  "frame (st\<lparr>stats := (stats st)\<lparr>mqttMessages := mqttMessages (stats st) + 1\<rparr>\<rparr>) (received st)"
  by (simp add: received_def)

lemma effects_received [simp]: "effects (received st) = effects st"
  by (simp add: received_def)

lemma wss_received [simp]: "wss (received st) = wss st"
  by (simp add: received_def)

lemma console_received [simp]: "console (received st) = console st @ [(Info, ''MQTT message received'')]"
  by (simp add: received_def)

lemma conversationStats_received [simp]:
  "conversationStats (stats (received st)) = conversationStats (stats st)"
  by (simp add: received_def)

lemma frame_trans: "frame a b \<Longrightarrow> frame b c \<Longrightarrow> frame a c"
  by (simp add: frame_def)

lemma try_block_quiet:
  assumes "get data ''type'' \<noteq> Some marker"
    and "\<not> (isDevicePublish \<and> get data ''duration'' \<noteq> None \<and> truthy (get data ''session_id''))"
  shows "effects (snd (try_block now isDevicePublish data st)) = effects st
       \<and> frame st (snd (try_block now isDevicePublish data st))"
  using assms
  by (cases "get data ''duration''"; cases "get data ''session_id''")
     (auto simp: try_block_def Let_def)

lemma try_block_tolerant:
  assumes "get data ''type'' \<noteq> Some marker" and "isDevicePublish"
    and "get data ''duration'' = Some dur" and "get data ''session_id'' = Some sid"
    and "truthy (Some sid)"
  shows "try_block now isDevicePublish data st =
           (None, broadcastToWebSocket (statsMessage now sid dur data)
                    (log Info ''Message looks like conversation stats, forwarding anyway''
                       (log Info ''Device published message but type is'' st)))"
  using assms by (auto simp: try_block_def Let_def)

lemma on_message_quiet:
  assumes "JSON_parse message = Some data" and "get data ''type'' \<noteq> Some marker"
    and "\<not> (publishTopic st = Some topic \<and> get data ''duration'' \<noteq> None \<and> truthy (get data ''session_id''))"
  shows "effects (on_message JSON_parse now topic message st) = effects st
       \<and> frame (st\<lparr>stats := (stats st)\<lparr>mqttMessages := mqttMessages (stats st) + 1\<rparr>\<rparr>)
               (on_message JSON_parse now topic message st)"
proof -
  let ?r = "try_block now (publishTopic st = Some topic) data (received st)"
  from try_block_quiet [OF assms(2,3), of now "received st"]
  have q: "effects (snd ?r) = effects st" "frame (received st) (snd ?r)" by simp_all
  have f: "frame (st\<lparr>stats := (stats st)\<lparr>mqttMessages := mqttMessages (stats st) + 1\<rparr>\<rparr>) (snd ?r)"
    using frame_trans [OF frame_received q(2)] .
  show ?thesis
    using q(1) f assms(1) by (cases ?r; cases "fst ?r") (auto simp: on_message_alt)
qed

lemma on_message_tolerant:
  assumes "JSON_parse message = Some data" and "get data ''type'' \<noteq> Some marker"
    and "publishTopic st = Some topic"
    and "get data ''duration'' = Some dur" and "get data ''session_id'' = Some sid"
    and "truthy (Some sid)"
  shows "on_message JSON_parse now topic message st =
           broadcastToWebSocket (statsMessage now sid dur data)
             (log Info ''Message looks like conversation stats, forwarding anyway''
                (log Info ''Device published message but type is'' (received st)))"
  using assms by (simp add: on_message_alt try_block_tolerant)


section \<open>Claims on the message handler\<close>

text \<open>
  Claim C7. A broker message whose decoded payload lacks the marker type and does not have
  both a \<^verbatim>\<open>duration\<close> and a \<^verbatim>\<open>session_id\<close> property yields no event: the handler makes
  no call to \<^verbatim>\<open>JSON.stringify\<close> or to a client's \<^verbatim>\<open>send\<close>, and apart from the console
  the only field of the bridge that changes is the counter \<^verbatim>\<open>stats.mqttMessages\<close>.
\<close>
theorem C7_no_event_without_marker_and_fields:
  assumes "JSON_parse message = Some data"
    and "lacks_marker data"
    and "\<not> (has_field data ''duration'' \<and> has_field data ''session_id'')"
  shows "effects (on_message JSON_parse now topic message st) = effects st
       \<and> frame (st\<lparr>stats := (stats st)\<lparr>mqttMessages := mqttMessages (stats st) + 1\<rparr>\<rparr>)
               (on_message JSON_parse now topic message st)"
proof -
  have "\<not> (publishTopic st = Some topic \<and> get data ''duration'' \<noteq> None \<and> truthy (get data ''session_id''))"
    using assms(3) by (cases "get data ''session_id''") (auto simp: has_field_def)
  with assms(1,2) show ?thesis
    unfolding lacks_marker_def by (rule on_message_quiet)
qed

text \<open>C7 at a control message on the device's publish topic.\<close>
theorem C7_witness:
  "parse_as payload_control ''m'' = Some payload_control
   \<and> lacks_marker payload_control
   \<and> \<not> (has_field payload_control ''duration'' \<and> has_field payload_control ''session_id'')
   \<and> effects (on_message (parse_as payload_control) 1700000000 ''x/y/publish'' ''m'' bridgeX) = []
   \<and> wss (on_message (parse_as payload_control) 1700000000 ''x/y/publish'' ''m'' bridgeX) = Some clientsX
   \<and> stats (on_message (parse_as payload_control) 1700000000 ''x/y/publish'' ''m'' bridgeX)
       = \<lparr>mqttMessages = 1, websocketClients = 4, conversationStats = 0\<rparr>"
proof -
  have h1: "parse_as payload_control ''m'' = Some payload_control"
    by (simp add: parse_as_def)
  have h2: "lacks_marker payload_control"
    by (simp add: lacks_marker_def payload_control_def marker_def)
  have h3: "\<not> (has_field payload_control ''duration'' \<and> has_field payload_control ''session_id'')"
    by (simp add: has_field_def payload_control_def)
  from C7_no_event_without_marker_and_fields
         [where JSON_parse = "parse_as payload_control" and message = "''m''" and data = payload_control
            and now = 1700000000 and topic = "''x/y/publish''" and st = bridgeX, OF h1 h2 h3]
  show ?thesis using h1 h2 h3 by (simp add: frame_def bridgeX_def)
qed

text \<open>
  Claim C8. When the payload is not valid JSON, the handler logs the failure through its
  \<^verbatim>\<open>catch\<close> and returns normally: no event is sent, and apart from the console only the
  counter \<^verbatim>\<open>stats.mqttMessages\<close> changes. The exception does not leave the handler.
\<close>
theorem C8_invalid_json_logged_and_dropped:
  assumes "JSON_parse message = None"
  shows "effects (on_message JSON_parse now topic message st) = effects st
       \<and> frame (st\<lparr>stats := (stats st)\<lparr>mqttMessages := mqttMessages (stats st) + 1\<rparr>\<rparr>)
               (on_message JSON_parse now topic message st)
       \<and> console (on_message JSON_parse now topic message st)
           = console st @ [(Info, ''MQTT message received''), (Error, ''Error parsing MQTT message'')]"
  using assms frame_received [of st] by (simp add: on_message_alt)

text \<open>C8 at a payload that does not parse.\<close>
theorem C8_witness:
  "parse_fails ''not json'' = None
   \<and> effects (on_message parse_fails 1700000000 ''x/y/publish'' ''not json'' bridgeX) = []
   \<and> stats (on_message parse_fails 1700000000 ''x/y/publish'' ''not json'' bridgeX)
       = \<lparr>mqttMessages = 1, websocketClients = 4, conversationStats = 0\<rparr>
   \<and> console (on_message parse_fails 1700000000 ''x/y/publish'' ''not json'' bridgeX)
       = [(Info, ''MQTT message received''), (Error, ''Error parsing MQTT message'')]"
proof -
  have h: "parse_fails ''not json'' = None" by (simp add: parse_fails_def)
  from C8_invalid_json_logged_and_dropped
         [where JSON_parse = parse_fails and message = "''not json''"
            and now = 1700000000 and topic = "''x/y/publish''" and st = bridgeX, OF h]
  show ?thesis using h by (simp add: frame_def bridgeX_def)
qed

lemma conversationStats_try_block:
  "conversationStats (stats (snd (try_block now p data st))) =
     conversationStats (stats st) + (if get data ''type'' = Some marker then 1 else 0)"
  by (cases "get data ''duration''"; cases "get data ''session_id''")
     (auto simp: try_block_def Let_def)

lemma conversationStats_on_message:
  "conversationStats (stats (on_message JSON_parse now topic message st)) =
     conversationStats (stats st) +
       (case JSON_parse message of
          None \<Rightarrow> 0
        | Some data \<Rightarrow> if get data ''type'' = Some marker then 1 else 0)"
proof (cases "JSON_parse message")
  case None
  then show ?thesis by (simp add: on_message_alt)
next
  case (Some data)
  let ?r = "try_block now (publishTopic st = Some topic) data (received st)"
  from conversationStats_try_block [of now "publishTopic st = Some topic" data "received st"]
  have "conversationStats (stats (snd ?r)) =
          conversationStats (stats st) + (if get data ''type'' = Some marker then 1 else 0)"
    by simp
  with Some show ?thesis
    by (cases ?r; cases "fst ?r") (auto simp: on_message_alt)
qed

text \<open>
  Claim C10. The counter \<^verbatim>\<open>stats.conversationStats\<close> grows by one exactly when the decoded
  payload carries the marker type, and not otherwise. A message forwarded by the tolerant
  branch is serialized and sent to the open clients while the counter keeps its value, so
  the counter reported to clients does not count it.
\<close>
theorem C10_counter_counts_marker_only:
  "conversationStats (stats (on_message JSON_parse now topic message st)) =
     conversationStats (stats st) +
       (case JSON_parse message of
          None \<Rightarrow> 0
        | Some data \<Rightarrow> if get data ''type'' = Some marker then 1 else 0)
   \<and> (JSON_parse message = Some data \<and> lacks_marker data \<and> publishTopic st = Some topic
        \<and> get data ''duration'' = Some dur \<and> get data ''session_id'' = Some sid
        \<and> truthy (Some sid) \<and> wss st = Some cs
      \<longrightarrow> effects (on_message JSON_parse now topic message st)
            = effects st @ Stringify (statsMessage now sid dur data)
                # attempts (statsMessage now sid dur data) cs
          \<and> conversationStats (stats (on_message JSON_parse now topic message st))
            = conversationStats (stats st))"
proof (intro conjI impI)
  show "conversationStats (stats (on_message JSON_parse now topic message st)) =
     conversationStats (stats st) +
       (case JSON_parse message of
          None \<Rightarrow> 0
        | Some data \<Rightarrow> if get data ''type'' = Some marker then 1 else 0)"
    by (rule conversationStats_on_message)
next
  assume a: "JSON_parse message = Some data \<and> lacks_marker data \<and> publishTopic st = Some topic
        \<and> get data ''duration'' = Some dur \<and> get data ''session_id'' = Some sid
        \<and> truthy (Some sid) \<and> wss st = Some cs"
  then have eq: "on_message JSON_parse now topic message st =
           broadcastToWebSocket (statsMessage now sid dur data)
             (log Info ''Message looks like conversation stats, forwarding anyway''
                (log Info ''Device published message but type is'' (received st)))"
    by (intro on_message_tolerant) (simp_all add: lacks_marker_def)
  from a show "effects (on_message JSON_parse now topic message st)
            = effects st @ Stringify (statsMessage now sid dur data)
                # attempts (statsMessage now sid dur data) cs"
    by (simp add: eq broadcast_effects_Some)
  show "conversationStats (stats (on_message JSON_parse now topic message st))
            = conversationStats (stats st)"
    by (simp add: eq)
qed


text \<open>C10 at the tolerant payload of the specification, on the device's publish topic.\<close>
theorem C10_witness:
  "conversationStats (stats (on_message (parse_as payload_tolerant) 1700000000 ''x/y/publish'' ''m'' bridgeX)) = 0
   \<and> effects (on_message (parse_as payload_tolerant) 1700000000 ''x/y/publish'' ''m'' bridgeX)
       = [Stringify (statsMessage 1700000000 (JStr ''s2'') (JNum 4) payload_tolerant),
          WsSend 1 (statsMessage 1700000000 (JStr ''s2'') (JNum 4) payload_tolerant),
          WsSendThrew 2 (statsMessage 1700000000 (JStr ''s2'') (JNum 4) payload_tolerant),
          WsSend 4 (statsMessage 1700000000 (JStr ''s2'') (JNum 4) payload_tolerant)]"
  using C10_counter_counts_marker_only
          [where JSON_parse = "parse_as payload_tolerant" and message = "''m''"
             and data = payload_tolerant and now = 1700000000 and topic = "''x/y/publish''"
             and st = bridgeX and dur = "JNum 4" and sid = "JStr ''s2''" and cs = clientsX]
  by (simp add: parse_as_def payload_tolerant_def lacks_marker_def marker_def bridgeX_def
        clientsX_def attempts_def)

text \<open>
  Claim C1, amended. A broker message whose decoded payload lacks the marker type, arrives
  on the saved publish topic, has a \<^verbatim>\<open>duration\<close> property and a truthy \<^verbatim>\<open>session_id\<close>
  property is forwarded, when the WebSocket server has been started: the message built from
  it is serialized once and sent to every open client. Its \<^verbatim>\<open>reason\<close> is
  \<^verbatim>\<open>"unknown"\<close> when the payload has none and its \<^verbatim>\<open>timestamp\<close> is the current time when
  the payload has none.
\<close>
theorem C1_tolerant_forward_amended:
  assumes "JSON_parse message = Some data"
    and "lacks_marker data"
    and "publishTopic st = Some topic"
    and "get data ''duration'' = Some dur"
    and "get data ''session_id'' = Some sid"
    and "truthy (Some sid)"
    and "wss st = Some cs"
  shows "effects (on_message JSON_parse now topic message st)
           = effects st @ Stringify (statsMessage now sid dur data)
               # attempts (statsMessage now sid dur data) cs
       \<and> get (statsMessage now sid dur data) ''type'' = Some marker
       \<and> get (statsMessage now sid dur data) ''session_id'' = Some sid
       \<and> get (statsMessage now sid dur data) ''duration'' = Some dur
       \<and> (get data ''reason'' = None
            \<longrightarrow> get (statsMessage now sid dur data) ''reason'' = Some (JStr ''unknown''))
       \<and> (get data ''timestamp'' = None
            \<longrightarrow> get (statsMessage now sid dur data) ''timestamp'' = Some (JNum (of_int now)))"
proof -
  have eq: "on_message JSON_parse now topic message st =
           broadcastToWebSocket (statsMessage now sid dur data)
             (log Info ''Message looks like conversation stats, forwarding anyway''
                (log Info ''Device published message but type is'' (received st)))"
    using assms(1-6) by (intro on_message_tolerant) (simp_all add: lacks_marker_def)
  have "effects (on_message JSON_parse now topic message st)
           = effects st @ Stringify (statsMessage now sid dur data)
               # attempts (statsMessage now sid dur data) cs"
    using assms(7) by (simp add: eq broadcast_effects_Some)
  then show ?thesis by (simp add: statsMessage_def)
qed

text \<open>The amended C1 at the tolerant payload of the specification.\<close>
theorem C1_witness:
  "effects (on_message (parse_as payload_tolerant) 1700000000 ''x/y/publish'' ''m'' bridgeX)
       = [Stringify (statsMessage 1700000000 (JStr ''s2'') (JNum 4) payload_tolerant),
          WsSend 1 (statsMessage 1700000000 (JStr ''s2'') (JNum 4) payload_tolerant),
          WsSendThrew 2 (statsMessage 1700000000 (JStr ''s2'') (JNum 4) payload_tolerant),
          WsSend 4 (statsMessage 1700000000 (JStr ''s2'') (JNum 4) payload_tolerant)]
   \<and> get (statsMessage 1700000000 (JStr ''s2'') (JNum 4) payload_tolerant) ''reason'' = Some (JStr ''unknown'')
   \<and> get (statsMessage 1700000000 (JStr ''s2'') (JNum 4) payload_tolerant) ''timestamp'' = Some (JNum 1700000000)"
proof -
  have h1: "parse_as payload_tolerant ''m'' = Some payload_tolerant" by (simp add: parse_as_def)
  have h2: "lacks_marker payload_tolerant"
    by (simp add: lacks_marker_def payload_tolerant_def marker_def)
  have h3: "publishTopic bridgeX = Some ''x/y/publish''" by (simp add: bridgeX_def)
  have h4: "get payload_tolerant ''duration'' = Some (JNum 4)" by (simp add: payload_tolerant_def)
  have h5: "get payload_tolerant ''session_id'' = Some (JStr ''s2'')" by (simp add: payload_tolerant_def)
  have h6: "truthy (Some (JStr ''s2''))" by simp
  have h7: "wss bridgeX = Some clientsX" by (simp add: bridgeX_def)
  have h8: "get payload_tolerant ''reason'' = None" "get payload_tolerant ''timestamp'' = None"
    by (simp_all add: payload_tolerant_def)
  from C1_tolerant_forward_amended
         [where JSON_parse = "parse_as payload_tolerant" and message = "''m''"
            and now = 1700000000, OF h1 h2 h3 h4 h5 h6 h7]
  show ?thesis using h8 by (simp add: bridgeX_def clientsX_def attempts_def)
qed

text \<open>
  C1 as stated fails: a payload without the marker, on the publish topic, with both a
  \<^verbatim>\<open>duration\<close> and a \<^verbatim>\<open>session_id\<close> property, whose session id is the empty string, is
  not forwarded (line 315 tests the truthiness of \<^verbatim>\<open>data.session_id\<close>).
\<close>
theorem C1_counterexample:
  "parse_as payload_empty_session ''m'' = Some payload_empty_session
   \<and> lacks_marker payload_empty_session
   \<and> publishTopic bridgeX = Some ''x/y/publish''
   \<and> has_field payload_empty_session ''duration''
   \<and> has_field payload_empty_session ''session_id''
   \<and> effects (on_message (parse_as payload_empty_session) 1700000000 ''x/y/publish'' ''m'' bridgeX) = []"
proof -
  have h: "\<not> (publishTopic bridgeX = Some ''x/y/publish''
              \<and> get payload_empty_session ''duration'' \<noteq> None
              \<and> truthy (get payload_empty_session ''session_id''))"
    by (simp add: payload_empty_session_def)
  have "effects (on_message (parse_as payload_empty_session) 1700000000 ''x/y/publish'' ''m'' bridgeX)
          = effects bridgeX"
    using on_message_quiet [where JSON_parse = "parse_as payload_empty_session" and message = "''m''"
                              and data = payload_empty_session and st = bridgeX and now = 1700000000, OF _ _ h]
    by (simp add: parse_as_def payload_empty_session_def marker_def)
  then show ?thesis
    by (simp add: parse_as_def lacks_marker_def has_field_def payload_empty_session_def marker_def bridgeX_def)
qed

section \<open>Broadcast\<close>

text \<open>
  Claim C5, amended. With the server started, a broadcast serializes the event once and
  calls \<^verbatim>\<open>send\<close> on every client whose socket is open, in registry order; a call that
  throws is caught, and every other open client still gets the event. The registry is left
  as it was: a client whose write threw stays registered.
\<close>
theorem C5_broadcast_isolates_failures_amended:
  assumes "wss st = Some cs"
  shows "effects (broadcastToWebSocket d st) = effects st @ Stringify d # attempts d cs
       \<and> (\<forall>c \<in> set cs. readyState c = OPEN \<and> \<not> send_throws c
             \<longrightarrow> WsSend (cid c) d \<in> set (effects (broadcastToWebSocket d st)))
       \<and> wss (broadcastToWebSocket d st) = Some cs
       \<and> frame st (broadcastToWebSocket d st)"
  using assms by (simp add: broadcast_effects_Some attempts_delivered)

text \<open>The amended C5 at four clients, one throwing and one closed.\<close>
theorem C5_witness:
  "effects (broadcastToWebSocket payload_tolerant bridgeX)
     = [Stringify payload_tolerant, WsSend 1 payload_tolerant,
        WsSendThrew 2 payload_tolerant, WsSend 4 payload_tolerant]
   \<and> registry (broadcastToWebSocket payload_tolerant bridgeX) = [1, 2, 3, 4]"
proof -
  have h: "wss bridgeX = Some clientsX" by (simp add: bridgeX_def)
  from C5_broadcast_isolates_failures_amended [OF h, of payload_tolerant]
  show ?thesis by (simp add: registry_def bridgeX_def clientsX_def attempts_def)
qed

text \<open>
  C5 as stated fails: the write to client 2 throws during the broadcast, and client 2 is
  still in the registry afterwards.
\<close>
theorem C5_counterexample:
  "WsSendThrew 2 payload_tolerant \<in> set (effects (broadcastToWebSocket payload_tolerant bridgeX))
   \<and> 2 \<in> set (registry (broadcastToWebSocket payload_tolerant bridgeX))"
proof -
  have h: "wss bridgeX = Some clientsX" by (simp add: bridgeX_def)
  have "effects (broadcastToWebSocket payload_tolerant bridgeX)
          = effects bridgeX @ Stringify payload_tolerant # attempts payload_tolerant clientsX"
    using h by (rule broadcast_effects_Some)
  then show ?thesis using h by (simp add: registry_def bridgeX_def clientsX_def attempts_def)
qed

section \<open>Connection, subscription and device registration\<close>

lemma effects_foldl_subscribe:
  "effects (foldl (\<lambda>s t. emit (MqttSubscribe t) s) st ts) = effects st @ map MqttSubscribe ts"
  by (induction ts arbitrary: st) simp_all

lemma effects_foldl_log:
  "effects (foldl (\<lambda>s t. if fails t then log Error ''Failed to subscribe'' s
                            else log Info ''Subscribed to'' s) st ts) = effects st"
  by (induction ts arbitrary: st) simp_all

lemma effects_doSubscribe:
  "effects (snd (doSubscribe fails c st)) = effects st @ map MqttSubscribe (requestedTopics c)"
  by (simp add: doSubscribe_def Let_def effects_foldl_subscribe effects_foldl_log)

lemma mqtt_connected_log [simp]: "mqtt_connected (log l s st) = mqtt_connected st"
  by (simp add: mqtt_connected_def log_def)

lemma on_timer_not_connected:
  "\<not> mqtt_connected st \<Longrightarrow> on_timer fails st = log Warn ''Connection lost before subscription'' st"
  by (simp add: on_timer_def mqtt_connected_def split: option.splits)

lemma mqtt_connected_disconnect [simp]: "\<not> mqtt_connected (disconnect st)"
  by (simp add: mqtt_connected_def disconnect_def split: option.splits)

lemma effects_disconnect [simp]: "effects (disconnect st) = effects st"
  by (simp add: disconnect_def)

lemma effects_on_timer_connected:
  assumes "mqttClient st = Some c" and "connected c"
  shows "effects (on_timer fails st) =
           effects st @ map MqttSubscribe (requestedTopics c) @ (if isFirstConnect c then [Resolve] else [])"
proof -
  obtain r st1 where d: "doSubscribe fails c (log Info ''Starting subscription...'' st) = (r, st1)"
    by (cases "doSubscribe fails c (log Info ''Starting subscription...'' st)")
  from effects_doSubscribe [of fails c "log Info ''Starting subscription...'' st"]
  have "effects st1 = effects st @ map MqttSubscribe (requestedTopics c)" by (simp add: d)
  with assms d show ?thesis by (simp add: on_timer_def Let_def)
qed

text \<open>
  Claim C4. When \<^verbatim>\<open>disconnect()\<close> (modelled from the specification) runs during the
  stabilization delay, after the broker acknowledged the connection and the timer was
  started, the timer callback that fires afterwards makes no call to \<^verbatim>\<open>subscribe\<close>: it
  finds the client not connected and returns. Without the disconnect the same callback
  subscribes to every requested topic.
\<close>
theorem C4_no_subscribe_after_disconnect:
  "effects (on_timer fails (disconnect st)) = effects st
   \<and> effects (on_timer fails (disconnect (on_connect connack st))) = effects (on_connect connack st)
   \<and> (mqttClient st = Some c \<and> connected c \<and> (connack = None \<or> connack = Some 0)
        \<longrightarrow> effects (on_connect connack st) = effects st @ [SetTimeout 1000]
          \<and> effects (on_timer fails (on_connect connack st))
              = effects st @ SetTimeout 1000 # map MqttSubscribe (requestedTopics c)
                  @ (if isFirstConnect c then [Resolve] else []))"
proof (intro conjI impI)
  show "effects (on_timer fails (disconnect st)) = effects st"
    by (simp add: on_timer_not_connected)
  show "effects (on_timer fails (disconnect (on_connect connack st))) = effects (on_connect connack st)"
    by (simp add: on_timer_not_connected)
next
  assume a: "mqttClient st = Some c \<and> connected c \<and> (connack = None \<or> connack = Some 0)"
  then show e1: "effects (on_connect connack st) = effects st @ [SetTimeout 1000]"
    by (auto simp: on_connect_def Let_def)
  from a have m: "mqttClient (on_connect connack st) = Some c"
    by (auto simp: on_connect_def Let_def emit_def log_def)
  from a show "effects (on_timer fails (on_connect connack st))
              = effects st @ SetTimeout 1000 # map MqttSubscribe (requestedTopics c)
                  @ (if isFirstConnect c then [Resolve] else [])"
    using effects_on_timer_connected [OF m, of fails] e1 by simp
qed

lemma requestedTopics_bridgeX:
  "requestedTopics ((new_client cfgX)\<lparr>connected := True, isFirstConnect := False\<rparr>)
     = [''x/y/publish'', ''devices/p2p/e4_b0'', ''#'']"
  by (simp add: requestedTopics_def subscribeTopics_def new_client_def cfgX_def deviceTopic_def)

text \<open>C4 at the connected bridge: with and without a disconnect during the delay.\<close>
theorem C4_witness:
  "effects (on_timer (\<lambda>t. False) (disconnect (on_connect (Some 0) bridgeX))) = [SetTimeout 1000]
   \<and> effects (on_timer (\<lambda>t. False) (on_connect (Some 0) bridgeX))
       = [SetTimeout 1000, MqttSubscribe ''x/y/publish'', MqttSubscribe ''devices/p2p/e4_b0'',
          MqttSubscribe ''#'']"
  using C4_no_subscribe_after_disconnect
          [where st = bridgeX and connack = "Some 0" and fails = "\<lambda>t. False"
             and c = "(new_client cfgX)\<lparr>connected := True, isFirstConnect := False\<rparr>"]
        requestedTopics_bridgeX
  by (simp add: bridgeX_def new_client_def)

section \<open>Topic resolution\<close>

text \<open>
  Claim C3, amended. Topic resolution is a function of the configuration alone. When the
  publish topic is known, with or without a \<^verbatim>\<open>client_id\<close>, the topics subscribed are,
  in this order, the publish topic verbatim, then the topic \<^verbatim>\<open>devices/p2p/<deviceId>\<close>
  with every colon replaced by an underscore when the device id is known, then the wildcard
  \<^verbatim>\<open>#\<close>. When only the device id is known they are that derived topic and the wildcard.
  Only when neither is known a fallback pattern is used, \<^verbatim>\<open>xiaozhi/<client_id>/#\<close> when
  the \<^verbatim>\<open>client_id\<close> is known and \<^verbatim>\<open>xiaozhi/+/publish\<close> otherwise, again followed by
  the wildcard. The wildcard is requested in every case.
\<close>
theorem C3_topics_amended:
  "(publish_topic config = Some p \<and> p \<noteq> []
      \<longrightarrow> requestedTopics (new_client config) =
            [p] @ (case deviceId config of
                     None \<Rightarrow> []
                   | Some d \<Rightarrow> if d \<noteq> [] then [deviceTopic d] else []) @ [''#''])
   \<and> (\<not> truthy_str (publish_topic config) \<and> deviceId config = Some d \<and> d \<noteq> []
      \<longrightarrow> requestedTopics (new_client config) = [deviceTopic d, ''#''])
   \<and> (\<not> truthy_str (publish_topic config) \<and> \<not> truthy_str (deviceId config)
      \<longrightarrow> requestedTopics (new_client config) =
            [case client_id config of
               None \<Rightarrow> ''xiaozhi/+/publish''
             | Some i \<Rightarrow> if i \<noteq> [] then ''xiaozhi/'' @ i @ ''/#'' else ''xiaozhi/+/publish'',
             ''#''])"
proof (intro conjI impI)
  assume "publish_topic config = Some p \<and> p \<noteq> []"
  then show "requestedTopics (new_client config) =
            [p] @ (case deviceId config of
                     None \<Rightarrow> []
                   | Some d \<Rightarrow> if d \<noteq> [] then [deviceTopic d] else []) @ [''#'']"
    by (simp add: requestedTopics_def subscribeTopics_def new_client_def split: option.split)
next
  assume "\<not> truthy_str (publish_topic config) \<and> deviceId config = Some d \<and> d \<noteq> []"
  then show "requestedTopics (new_client config) = [deviceTopic d, ''#'']"
    by (cases "publish_topic config")
       (simp_all add: requestedTopics_def subscribeTopics_def new_client_def)
next
  assume "\<not> truthy_str (publish_topic config) \<and> \<not> truthy_str (deviceId config)"
  then show "requestedTopics (new_client config) =
            [case client_id config of
               None \<Rightarrow> ''xiaozhi/+/publish''
             | Some i \<Rightarrow> if i \<noteq> [] then ''xiaozhi/'' @ i @ ''/#'' else ''xiaozhi/+/publish'',
             ''#'']"
    by (cases "publish_topic config"; cases "deviceId config"; cases "client_id config")
       (simp_all add: requestedTopics_def subscribeTopics_def new_client_def)
qed

text \<open>
  The amended C3 at a configuration with publish topic and device id, at one with the
  device id alone, and at two with neither.
\<close>
theorem C3_witness:
  "requestedTopics (new_client cfgX) = [''x/y/publish'', ''devices/p2p/e4_b0'', ''#'']
   \<and> requestedTopics (new_client (mqttY\<lparr>publish_topic := None, deviceId := Some ''aa:bb''\<rparr>))
       = [''devices/p2p/aa_bb'', ''#'']
   \<and> requestedTopics (new_client (mqttY\<lparr>publish_topic := None\<rparr>)) = [''xiaozhi/GID_2/#'', ''#'']
   \<and> requestedTopics (new_client (cfgX\<lparr>publish_topic := None, deviceId := None\<rparr>))
       = [''xiaozhi/+/publish'', ''#'']"
proof -
  have a: "requestedTopics (new_client cfgX) = [''x/y/publish'', ''devices/p2p/e4_b0'', ''#'']"
    using C3_topics_amended [where config = cfgX and p = "''x/y/publish''"]
    by (simp add: cfgX_def deviceTopic_def)
  have b: "requestedTopics (new_client (mqttY\<lparr>publish_topic := None, deviceId := Some ''aa:bb''\<rparr>))
       = [''devices/p2p/aa_bb'', ''#'']"
    using C3_topics_amended [where config = "mqttY\<lparr>publish_topic := None, deviceId := Some ''aa:bb''\<rparr>"
                               and d = "''aa:bb''"]
    by (simp add: deviceTopic_def)
  have c: "requestedTopics (new_client (mqttY\<lparr>publish_topic := None\<rparr>)) = [''xiaozhi/GID_2/#'', ''#'']"
    using C3_topics_amended [where config = "mqttY\<lparr>publish_topic := None\<rparr>"]
    by (simp add: mqttY_def)
  have d: "requestedTopics (new_client (cfgX\<lparr>publish_topic := None, deviceId := None\<rparr>))
       = [''xiaozhi/+/publish'', ''#'']"
    using C3_topics_amended [where config = "cfgX\<lparr>publish_topic := None, deviceId := None\<rparr>"]
    by (simp add: cfgX_def)
  from a b c d show ?thesis by simp
qed

text \<open>
  C3 as stated fails: with the publish topic known, no \<^verbatim>\<open>client_id\<close> and a device id,
  a third topic, derived from the device id, is subscribed besides the publish topic and
  the wildcard.
\<close>
theorem C3_counterexample:
  "publish_topic cfgX = Some ''x/y/publish'' \<and> client_id cfgX = None
   \<and> requestedTopics (new_client cfgX) = [''x/y/publish'', ''devices/p2p/e4_b0'', ''#'']
   \<and> ''devices/p2p/e4_b0'' \<notin> {''x/y/publish'', ''#''}"
  by (simp add: requestedTopics_def subscribeTopics_def new_client_def cfgX_def deviceTopic_def)

section \<open>Adding a device\<close>

lemma addDevice_resume_connected:
  assumes "mqtt_connected st"
  shows "addDevice_resume dId cId (Inr mqtt) rejected st =
           (AddSuccess dId (summary (mqtt\<lparr>deviceId := Some dId, clientId := Some cId\<rparr>)),
            log Info ''Device config fetched''
              (st\<lparr>deviceConfigs := map_set dId (mqtt\<lparr>deviceId := Some dId, clientId := Some cId\<rparr>)
                    (deviceConfigs st)\<rparr>))"
proof -
  have "mqtt_connected (log Info ''Device config fetched''
          (st\<lparr>deviceConfigs := map_set dId (mqtt\<lparr>deviceId := Some dId, clientId := Some cId\<rparr>)
                (deviceConfigs st)\<rparr>))"
    using assms by (simp add: mqtt_connected_def log_def)
  then show ?thesis by (simp add: addDevice_resume_def Let_def)
qed

text \<open>
  Claim C2, amended. When the broker client is connected at the moment the configuration
  of the device has been fetched (the test of line 466), \<^verbatim>\<open>addDevice\<close> opens no broker
  connection and issues no subscription: it stores the configuration under the device id,
  leaves the broker client and the saved publish topic as they are, and reports success
  with the endpoint, \<^verbatim>\<open>client_id\<close>, username and publish topic of the configuration. This
  is the case when \<^verbatim>\<open>addDevice\<close> is called on a connected bridge and the handlers that run
  during the fetch keep it connected.
\<close>
theorem C2_addDevice_connected_amended:
  assumes "mqtt_connected (during (addDevice_start dId st))"
  shows "fst (addDevice dId cId (Inr mqtt) rejected during st)
           = AddSuccess dId \<lparr>sum_endpoint = endpoint mqtt, sum_client_id = client_id mqtt,
                             sum_username = username mqtt, sum_publish_topic = publish_topic mqtt\<rparr>
       \<and> effects (snd (addDevice dId cId (Inr mqtt) rejected during st))
           = effects (during (addDevice_start dId st))
       \<and> mqttClient (snd (addDevice dId cId (Inr mqtt) rejected during st))
           = mqttClient (during (addDevice_start dId st))
       \<and> publishTopic (snd (addDevice dId cId (Inr mqtt) rejected during st))
           = publishTopic (during (addDevice_start dId st))
       \<and> deviceConfigs (snd (addDevice dId cId (Inr mqtt) rejected during st))
           = map_set dId (mqtt\<lparr>deviceId := Some dId, clientId := Some cId\<rparr>)
               (deviceConfigs (during (addDevice_start dId st)))
       \<and> mqtt_connected (addDevice_start dId st) = mqtt_connected st
       \<and> effects (addDevice_start dId st) = effects st"
proof -
  let ?s = "during (addDevice_start dId st)"
  let ?config = "mqtt\<lparr>deviceId := Some dId, clientId := Some cId\<rparr>"
  have r: "addDevice dId cId (Inr mqtt) rejected during st =
             (AddSuccess dId (summary ?config),
              log Info ''Device config fetched''
                (?s\<lparr>deviceConfigs := map_set dId ?config (deviceConfigs ?s)\<rparr>))"
    unfolding addDevice_def by (rule addDevice_resume_connected [OF assms])
  have a: "fst (addDevice dId cId (Inr mqtt) rejected during st)
           = AddSuccess dId \<lparr>sum_endpoint = endpoint mqtt, sum_client_id = client_id mqtt,
                             sum_username = username mqtt, sum_publish_topic = publish_topic mqtt\<rparr>"
    by (simp add: r summary_def)
  have b: "effects (snd (addDevice dId cId (Inr mqtt) rejected during st)) = effects ?s"
    "mqttClient (snd (addDevice dId cId (Inr mqtt) rejected during st)) = mqttClient ?s"
    "publishTopic (snd (addDevice dId cId (Inr mqtt) rejected during st)) = publishTopic ?s"
    "deviceConfigs (snd (addDevice dId cId (Inr mqtt) rejected during st))
       = map_set dId ?config (deviceConfigs ?s)"
    by (simp_all add: r log_def)
  have c: "mqtt_connected (addDevice_start dId st) = mqtt_connected st"
    "effects (addDevice_start dId st) = effects st"
    by (simp_all add: addDevice_start_def)
  from a b c show ?thesis by simp
qed

text \<open>The amended C2 at a second device added to the connected bridge.\<close>
theorem C2_witness:
  "mqtt_connected (no_events (addDevice_start ''aa:bb'' bridgeX))
   \<and> fst (addDevice ''aa:bb'' ''uuid-2'' (Inr mqttY) None no_events bridgeX)
       = AddSuccess ''aa:bb'' \<lparr>sum_endpoint = Some ''broker.example'', sum_client_id = Some ''GID_2'',
                               sum_username = Some ''user'', sum_publish_topic = Some ''p/q/publish''\<rparr>
   \<and> effects (snd (addDevice ''aa:bb'' ''uuid-2'' (Inr mqttY) None no_events bridgeX)) = []
   \<and> map fst (deviceConfigs (snd (addDevice ''aa:bb'' ''uuid-2'' (Inr mqttY) None no_events bridgeX)))
       = [''e4:b0'', ''aa:bb'']"
proof -
  have h: "mqtt_connected (no_events (addDevice_start ''aa:bb'' bridgeX))"
    by (simp add: no_events_def addDevice_start_def)
       (simp add: mqtt_connected_def bridgeX_def new_client_def)
  have e: "effects (no_events (addDevice_start ''aa:bb'' bridgeX)) = []"
    "deviceConfigs (no_events (addDevice_start ''aa:bb'' bridgeX)) = [(''e4:b0'', cfgX)]"
    by (simp_all add: no_events_def addDevice_start_def log_def bridgeX_def)
  from C2_addDevice_connected_amended
         [where during = no_events and dId = "''aa:bb''" and st = bridgeX and cId = "''uuid-2''"
            and mqtt = mqttY and rejected = None, OF h]
  show ?thesis using h e by (simp add: mqttY_def)
qed

text \<open>
  C2 as stated fails: after a second device is added to the connected bridge, with nothing
  else happening during the fetch, no subscription to that device's publish topic has been
  issued.
\<close>
theorem C2_counterexample:
  "mqtt_connected bridgeX
   \<and> publish_topic mqttY = Some ''p/q/publish''
   \<and> MqttSubscribe ''p/q/publish''
       \<notin> set (effects (snd (addDevice ''aa:bb'' ''uuid-2'' (Inr mqttY) None no_events bridgeX)))"
proof -
  have h: "mqtt_connected bridgeX" by (simp add: mqtt_connected_def bridgeX_def new_client_def)
  then have h': "mqtt_connected (no_events (addDevice_start ''aa:bb'' bridgeX))"
    by (simp add: no_events_def addDevice_start_def)
  have "effects (snd (addDevice ''aa:bb'' ''uuid-2'' (Inr mqttY) None no_events bridgeX)) = []"
    by (simp add: addDevice_def
          addDevice_resume_connected
            [where st = "no_events (addDevice_start ''aa:bb'' bridgeX)", OF h'])
       (simp add: no_events_def addDevice_start_def log_def bridgeX_def)
  then show ?thesis using h by (simp add: mqttY_def)
qed

section \<open>The saved publish topic\<close>

text \<open>
  Claim C9, amended. \<^verbatim>\<open>connectMQTT\<close> overwrites the saved publish topic with that of its
  configuration when the broker client is not connected, and leaves it as it is when the
  client is connected. The tolerant branch compares the inbound topic with that one saved
  value: a message without the marker on any other topic, such as the publish topic of a
  device registered earlier, is not forwarded.
\<close>
theorem C9_saved_topic_amended:
  "publishTopic (connectMQTT config st)
     = (if mqtt_connected st then publishTopic st else publish_topic config)
   \<and> (JSON_parse message = Some data \<and> lacks_marker data \<and> publishTopic st \<noteq> Some topic
        \<longrightarrow> effects (on_message JSON_parse now topic message st) = effects st)"
proof (intro conjI impI)
  show "publishTopic (connectMQTT config st)
          = (if mqtt_connected st then publishTopic st else publish_topic config)"
    by (simp add: connectMQTT_def Let_def emit_def log_def)
next
  assume a: "JSON_parse message = Some data \<and> lacks_marker data \<and> publishTopic st \<noteq> Some topic"
  then have "\<not> (publishTopic st = Some topic \<and> get data ''duration'' \<noteq> None
                 \<and> truthy (get data ''session_id''))"
    by simp
  with a show "effects (on_message JSON_parse now topic message st) = effects st"
    using on_message_quiet [of JSON_parse message data st topic now] by (simp add: lacks_marker_def)
qed

lemma connectMQTT_after_loss:
  "connectMQTT mqttY (disconnect bridgeX)
     = (emit (MqttConnect ''mqtts://broker.example:8883'')
          (log Info ''Connecting to MQTT''
             (log Info ''Saved publish_topic'' ((disconnect bridgeX)\<lparr>publishTopic := Some ''p/q/publish''\<rparr>))))
       \<lparr>mqttClient := Some (new_client mqttY)\<rparr>"
  by (simp add: connectMQTT_def Let_def mqttUrl_def) (simp add: mqttY_def)

text \<open>
  The amended C9 after the connection of the first device was lost and a second device
  connected: a tolerant payload on the first device's publish topic is not forwarded.
\<close>
theorem C9_witness:
  "\<not> mqtt_connected (disconnect bridgeX)
   \<and> publishTopic (connectMQTT mqttY (disconnect bridgeX)) = Some ''p/q/publish''
   \<and> effects (on_message (parse_as payload_tolerant) 1700000000 ''x/y/publish'' ''m''
                (connectMQTT mqttY (disconnect bridgeX)))
       = [MqttConnect ''mqtts://broker.example:8883'']"
proof -
  have h0: "\<not> mqtt_connected (disconnect bridgeX)" by simp
  have h1: "parse_as payload_tolerant ''m'' = Some payload_tolerant" by (simp add: parse_as_def)
  have h2: "lacks_marker payload_tolerant"
    by (simp add: lacks_marker_def payload_tolerant_def marker_def)
  have p: "publishTopic (connectMQTT mqttY (disconnect bridgeX)) = Some ''p/q/publish''"
    using C9_saved_topic_amended [where config = mqttY and st = "disconnect bridgeX"] h0
    by (simp add: mqttY_def)
  have e: "effects (connectMQTT mqttY (disconnect bridgeX)) = [MqttConnect ''mqtts://broker.example:8883'']"
    by (simp add: connectMQTT_after_loss) (simp add: bridgeX_def log_def disconnect_def)
  from C9_saved_topic_amended
         [where JSON_parse = "parse_as payload_tolerant" and message = "''m''" and data = payload_tolerant
            and st = "connectMQTT mqttY (disconnect bridgeX)" and topic = "''x/y/publish''"
            and now = 1700000000]
  show ?thesis using h0 h1 h2 p e by simp
qed

text \<open>
  C9 as stated fails: a call of \<^verbatim>\<open>connectMQTT\<close> with the configuration of a second device
  while the client is connected does not overwrite the saved publish topic, and the
  tolerant branch still forwards a message on the first device's publish topic.
\<close>
theorem C9_counterexample:
  "mqtt_connected bridgeX
   \<and> publish_topic mqttY = Some ''p/q/publish''
   \<and> publishTopic (connectMQTT mqttY bridgeX) = Some ''x/y/publish''
   \<and> effects (on_message (parse_as payload_tolerant) 1700000000 ''x/y/publish'' ''m''
                (connectMQTT mqttY bridgeX))
       = [Resolve,
          Stringify (statsMessage 1700000000 (JStr ''s2'') (JNum 4) payload_tolerant),
          WsSend 1 (statsMessage 1700000000 (JStr ''s2'') (JNum 4) payload_tolerant),
          WsSendThrew 2 (statsMessage 1700000000 (JStr ''s2'') (JNum 4) payload_tolerant),
          WsSend 4 (statsMessage 1700000000 (JStr ''s2'') (JNum 4) payload_tolerant)]"
proof -
  have h: "mqtt_connected bridgeX" by (simp add: mqtt_connected_def bridgeX_def new_client_def)
  have c: "connectMQTT mqttY bridgeX = emit Resolve (log Info ''MQTT already connected'' bridgeX)"
    using h by (simp add: connectMQTT_def)
  have p: "publishTopic (connectMQTT mqttY bridgeX) = Some ''x/y/publish''"
    by (simp add: c) (simp add: emit_def log_def bridgeX_def)
  have w: "wss (connectMQTT mqttY bridgeX) = Some clientsX"
    by (simp add: c) (simp add: emit_def log_def bridgeX_def)
  have e: "effects (connectMQTT mqttY bridgeX) = [Resolve]"
    by (simp add: c) (simp add: bridgeX_def)
  have "on_message (parse_as payload_tolerant) 1700000000 ''x/y/publish'' ''m'' (connectMQTT mqttY bridgeX)
          = broadcastToWebSocket (statsMessage 1700000000 (JStr ''s2'') (JNum 4) payload_tolerant)
              (log Info ''Message looks like conversation stats, forwarding anyway''
                 (log Info ''Device published message but type is'' (received (connectMQTT mqttY bridgeX))))"
    by (rule on_message_tolerant [OF _ _ p])
       (simp_all add: parse_as_def payload_tolerant_def marker_def)
  then have "effects (on_message (parse_as payload_tolerant) 1700000000 ''x/y/publish'' ''m'' (connectMQTT mqttY bridgeX))
          = effects (connectMQTT mqttY bridgeX)
              @ Stringify (statsMessage 1700000000 (JStr ''s2'') (JNum 4) payload_tolerant)
              # attempts (statsMessage 1700000000 (JStr ''s2'') (JNum 4) payload_tolerant) clientsX"
    using w by (simp add: broadcast_effects_Some)
  then show ?thesis using h p e by (simp add: mqttY_def clientsX_def attempts_def)
qed

section \<open>The heartbeat\<close>


lemma find_conn_hb_emit [simp]: "find_conn c (hb_emit e st) = find_conn c st"
  by (simp add: find_conn_def hb_emit_def)

lemma find_conn_on_close [simp]: "find_conn c (on_close c st) = None"
proof -
  have "find (\<lambda>x. conn_id x = c) (filter (\<lambda>x. conn_id x \<noteq> c) xs) = None" for xs :: "conn list"
    by (induction xs) simp_all
  then show ?thesis by (simp add: find_conn_def on_close_def)
qed


lemma hb_effects_update [simp]: "hb_effects (update_conn c f st) = hb_effects st"
  by (simp add: update_conn_def)

lemma hb_effects_terminate [simp]: "hb_effects (terminate c st) = hb_effects st @ [Terminate c]"
  by (simp add: terminate_def hb_emit_def)

lemma count_terminate [simp]: "api_websocketClients (terminate c st) = api_websocketClients st"
  by (simp add: terminate_def hb_emit_def update_conn_def)

lemma count_on_close [simp]: "api_websocketClients (on_close c st) = api_websocketClients st - 1"
  by (simp add: on_close_def)












end
